theory Spec2Isabelle
  imports Complex_Main
begin

section \<open>Python and numpy values\<close>

text \<open>
  The measurement code works on numpy arrays.  An array is modelled by its nesting: a
  scalar, or a sequence of sub-arrays.  A contour as OpenCV hands it out has three axes,
  \<open>(N, 1, 2)\<close>: \<open>N\<close> rows, each holding one point, each point holding two numbers.
  The element type is not fixed by the source (\<open>cv2.findContours\<close> yields 32-bit
  integers, the coordinate endpoint of \<open>api.py\<close> passes 32-bit floats), so coordinates
  are real numbers, and integer and float arithmetic is read as exact real arithmetic.

  Exceptions are values of \<open>py_error\<close>.  \<open>NonScalar\<close> is not a Python exception: it
  marks the place where a real-valued computation meets an element that is itself an
  array (a contour of more than three axes), where numpy would broadcast instead.
\<close>

datatype py_error =
    IndexError
  | TypeError
  | KeyError string
  | ValueError string
  | Cv2Error
  | NonScalar

datatype ndarray = Num real | Arr "ndarray list"

definition and_then :: "py_error + 'a \<Rightarrow> ('a \<Rightarrow> py_error + 'b) \<Rightarrow> py_error + 'b" where
  "and_then m f = (case m of Inl e \<Rightarrow> Inl e | Inr x \<Rightarrow> f x)"

text \<open>\<open>len(a)\<close>: a zero-dimensional array has no length.\<close>

fun py_len :: "ndarray \<Rightarrow> py_error + nat" where
  "py_len (Num r) = Inl TypeError"
| "py_len (Arr xs) = Inr (length xs)"

text \<open>\<open>xs[i]\<close> on a sequence: a negative index counts from the end.\<close>

definition list_item :: "'a list \<Rightarrow> int \<Rightarrow> py_error + 'a" where
  "list_item xs i =
     (if 0 \<le> i \<and> i < int (length xs) then Inr (xs ! nat i)
      else if i < 0 \<and> - i \<le> int (length xs) then Inr (xs ! nat (int (length xs) + i))
      else Inl IndexError)"

fun getitem :: "ndarray \<Rightarrow> int \<Rightarrow> py_error + ndarray" where
  "getitem (Num r) i = Inl IndexError"
| "getitem (Arr xs) i = list_item xs i"

fun scalar :: "ndarray \<Rightarrow> py_error + real" where
  "scalar (Num r) = Inr r"
| "scalar (Arr xs) = Inl NonScalar"

text \<open>
  \<open>a.shape\<close>, read off the nesting along the first element of every axis (arrays are
  rectangular), and \<open>a.ndim\<close>.
\<close>

fun shape :: "ndarray \<Rightarrow> nat list" where
  "shape (Num r) = []"
| "shape (Arr []) = [0]"
| "shape (Arr (x # xs)) = Suc (length xs) # shape x"

definition ndim :: "ndarray \<Rightarrow> nat" where
  "ndim a = length (shape a)"

text \<open>\<open>str(n)\<close> for a natural number.\<close>

definition digit_char :: "nat \<Rightarrow> char" where
  "digit_char d = ''0123456789'' ! d"

function str_nat :: "nat \<Rightarrow> string" where
  "str_nat n = (if n < 10 then [digit_char n] else str_nat (n div 10) @ [digit_char (n mod 10)])"
  by pat_completeness auto
termination
  by (relation "measure id") auto

declare str_nat.simps [simp del]

text \<open>
  \<open>np.vstack([a, b])\<close> is \<open>np.concatenate\<close> along the first axis after
  \<open>np.atleast_2d\<close>, which lifts arrays of fewer than two axes and leaves every other
  array as it is.  \<open>np.concatenate\<close> raises \<open>ValueError\<close> unless its arguments have the
  same number of axes and agree on every axis but the first.
\<close>

definition atleast_2d :: "ndarray \<Rightarrow> ndarray" where
  "atleast_2d a = (if ndim a = 0 then Arr [Arr [a]] else if ndim a = 1 then Arr [a] else a)"

definition concatenate0 :: "ndarray \<Rightarrow> ndarray \<Rightarrow> py_error + ndarray" where
  "concatenate0 a b =
     (case (a, b) of
        (Arr xs, Arr ys) \<Rightarrow>
          if ndim a \<noteq> ndim b
          then Inl (ValueError
            (''all the input arrays must have same number of dimensions, but the array at index 0 has '' @
             str_nat (ndim a) @ '' dimension(s) and the array at index 1 has '' @
             str_nat (ndim b) @ '' dimension(s)''))
          else if tl (shape a) \<noteq> tl (shape b)
          then Inl (ValueError
            ''all the input array dimensions except for the concatenation axis must match exactly'')
          else Inr (Arr (xs @ ys))
      | _ \<Rightarrow> Inl (ValueError ''zero-dimensional arrays cannot be concatenated''))"

definition vstack :: "ndarray \<Rightarrow> ndarray \<Rightarrow> py_error + ndarray" where
  "vstack a b = concatenate0 (atleast_2d a) (atleast_2d b)"

text \<open>
  Rounding.  Python rounds a float to a number of decimals, in \<open>round(x, n)\<close> and in
  the format \<open>f"{x:.2f}"\<close> alike, to the nearest decimal of that many digits, a tie
  going to the even last digit.  The model rounds the real number; it does not follow
  the binary representation of a float (in Python \<open>round(2.675, 2)\<close> is \<open>2.67\<close>,
  since the float lies below the decimal).
\<close>

definition round_half_even :: "real \<Rightarrow> int" where
  "round_half_even x =
     (let f = \<lfloor>x\<rfloor>; d = x - of_int f
      in if d < 1 / 2 then f else if 1 / 2 < d then f + 1 else if even f then f else f + 1)"


definition format_2f :: "real \<Rightarrow> string" where
  "format_2f x =
     (let n = nat (round_half_even (\<bar>x\<bar> * 100))
      in (if x < 0 then ''-'' else []) @ str_nat (n div 100) @ ''.'' @
         [digit_char (n div 10 mod 10), digit_char (n mod 10)])"

text \<open>
  \<open>s.lower()\<close> on the letters A to Z.  No character outside ASCII lowers to a letter
  of a unit name, so leaving the other characters alone changes no lookup below.
\<close>

definition lower_char :: "char \<Rightarrow> char" where
  "lower_char c =
     (case map_of (zip ''ABCDEFGHIJKLMNOPQRSTUVWXYZ'' ''abcdefghijklmnopqrstuvwxyz'') c of
        Some l \<Rightarrow> l
      | None \<Rightarrow> c)"

definition lower :: "string \<Rightarrow> string" where
  "lower s = map lower_char s"


fun join_notes :: "string list \<Rightarrow> string" where
  "join_notes [] = []"
| "join_notes [x] = x"
| "join_notes (x # y # rest) = x @ '' '' @ join_notes (y # rest)"

text \<open>
  \<open>max(xs, key=key)\<close>: the first item starts as the maximum, and a later item replaces
  it only when its key is strictly greater.
\<close>

fun max_loop :: "('a \<Rightarrow> py_error + real) \<Rightarrow> 'a \<Rightarrow> real \<Rightarrow> 'a list \<Rightarrow> py_error + 'a" where
  "max_loop key maxitem maxval [] = Inr maxitem"
| "max_loop key maxitem maxval (item # rest) =
     (case key item of
        Inl e \<Rightarrow> Inl e
      | Inr v \<Rightarrow>
          if v > maxval then max_loop key item v rest
          else max_loop key maxitem maxval rest)"

definition py_max :: "('a \<Rightarrow> py_error + real) \<Rightarrow> 'a list \<Rightarrow> py_error + 'a" where
  "py_max key xs =
     (case xs of
        [] \<Rightarrow> Inl (ValueError ''max() arg is an empty sequence'')
      | x # rest \<Rightarrow> (case key x of Inl e \<Rightarrow> Inl e | Inr v \<Rightarrow> max_loop key x v rest))"

section \<open>OpenCV\<close>

text \<open>
  Modelled from the spec: \<open>cv2.contourArea\<close>, a function of the OpenCV library, which
  is not part of the repository.  It takes the points of an \<open>(N, 1, 2)\<close> or \<open>(N, 2)\<close>
  array and returns the absolute value of half the cyclic sum of
  \<open>x_i * y_{i+1} - x_{i+1} * y_i\<close>, the shoelace formula of section 4.4.
\<close>

fun row_point :: "ndarray \<Rightarrow> (real \<times> real) option" where
  "row_point (Arr [Num x, Num y]) = Some (x, y)"
| "row_point (Arr [Arr [Num x, Num y]]) = Some (x, y)"
| "row_point r = None"

definition contour_points :: "ndarray \<Rightarrow> py_error + (real \<times> real) list" where
  "contour_points c =
     (case c of
        Num r \<Rightarrow> Inl Cv2Error
      | Arr rows \<Rightarrow>
          (case those (map row_point rows) of None \<Rightarrow> Inl Cv2Error | Some ps \<Rightarrow> Inr ps))"

definition cross :: "real \<times> real \<Rightarrow> real \<times> real \<Rightarrow> real" where
  "cross p q = fst p * snd q - fst q * snd p"

definition shoelace_sum :: "(real \<times> real) list \<Rightarrow> real" where
  "shoelace_sum ps = (\<Sum>(p, q)\<leftarrow>zip ps (rotate1 ps). cross p q)"

definition contourArea :: "ndarray \<Rightarrow> py_error + real" where
  "contourArea c = and_then (contour_points c) (\<lambda>ps. Inr (0.5 * \<bar>shoelace_sum ps\<bar>))"

text \<open>
  The image stages of OpenCV are parameters of the model: reading a file
  (\<open>cv2.imread\<close>, \<open>None\<close> when the file cannot be decoded), the grayscale conversion,
  denoising and contrast equalisation of \<open>preprocess_image\<close>, and the masks, their
  fusion, the morphology and \<open>cv2.findContours\<close> of \<open>detect_drawn_lines\<close>, which
  yield the raw contours and the combined mask.
\<close>

record 'img opencv =
  cv_imread :: "string \<Rightarrow> 'img option"
  cv_preprocess :: "'img \<Rightarrow> 'img \<times> 'img"
  cv_find_contours :: "'img \<Rightarrow> 'img \<Rightarrow> ndarray list \<times> 'img"

section \<open>ImageMeasurementProcessor (image\_processor.py)\<close>

text \<open>
  The instance has one field, set by the constructor.  The three methods that make up the
  processing (\<open>preprocess_image\<close>, \<open>detect_drawn_lines\<close>, \<open>process_image_array\<close>)
  take the instance and return it with their result; the geometry helpers never mention
  \<open>self\<close> in their bodies and are functions of their arguments.
\<close>

record processor =
  debug_mode :: bool

definition ImageMeasurementProcessor_init :: processor where
  "ImageMeasurementProcessor_init = \<lparr>debug_mode = False\<rparr>"

definition preprocess_image ::
  "'img opencv \<Rightarrow> processor \<Rightarrow> 'img \<Rightarrow> ('img \<times> 'img) \<times> processor" where
  "preprocess_image cv self img = (cv_preprocess cv img, self)"

definition min_area :: real where
  "min_area = 50"

text \<open>\<open>[cnt for cnt in contours if cv2.contourArea(cnt) > min_area]\<close>\<close>

fun filter_contours :: "ndarray list \<Rightarrow> py_error + ndarray list" where
  "filter_contours [] = Inr []"
| "filter_contours (cnt # rest) =
     (case contourArea cnt of
        Inl e \<Rightarrow> Inl e
      | Inr a \<Rightarrow>
          (case filter_contours rest of
             Inl e \<Rightarrow> Inl e
           | Inr kept \<Rightarrow> Inr (if a > min_area then cnt # kept else kept)))"

definition detect_drawn_lines ::
  "'img opencv \<Rightarrow> processor \<Rightarrow> 'img \<Rightarrow> 'img \<Rightarrow> (py_error + ndarray list \<times> 'img) \<times> processor" where
  "detect_drawn_lines cv self processed original =
     (case cv_find_contours cv processed original of
        (contours, combined) \<Rightarrow>
          (and_then (filter_contours contours) (\<lambda>filtered_contours.
             Inr (filtered_contours, combined)), self))"

text \<open>\<open>contour[i][0]\<close>, the point of row \<open>i\<close>, and \<open>pt[k]\<close>, one of its coordinates.\<close>

definition row0 :: "ndarray \<Rightarrow> int \<Rightarrow> py_error + ndarray" where
  "row0 contour i = and_then (getitem contour i) (\<lambda>r. getitem r 0)"

definition coord :: "ndarray \<Rightarrow> int \<Rightarrow> py_error + real" where
  "coord pt k = and_then (getitem pt k) scalar"

text \<open>\<open>np.sqrt((pt2[0] - pt1[0])**2 + (pt2[1] - pt1[1])**2)\<close>\<close>

definition segment :: "ndarray \<Rightarrow> ndarray \<Rightarrow> py_error + real" where
  "segment pt1 pt2 =
     and_then (coord pt2 0) (\<lambda>x2. and_then (coord pt1 0) (\<lambda>x1.
     and_then (coord pt2 1) (\<lambda>y2. and_then (coord pt1 1) (\<lambda>y1.
       Inr (sqrt ((x2 - x1)\<^sup>2 + (y2 - y1)\<^sup>2))))))"

text \<open>
  \<open>calculate_line_length\<close>: the loop \<open>for i in range(len(contour))\<close> runs over the
  indices, adding the distance from point \<open>i\<close> to point \<open>(i + 1) % len(contour)\<close>.
\<close>

fun line_length_loop :: "ndarray \<Rightarrow> nat \<Rightarrow> nat list \<Rightarrow> real \<Rightarrow> py_error + real" where
  "line_length_loop contour n [] acc = Inr acc"
| "line_length_loop contour n (i # rest) acc =
     (case and_then (row0 contour (int i)) (\<lambda>pt1.
           and_then (row0 contour (int ((i + 1) mod n))) (\<lambda>pt2. segment pt1 pt2)) of
        Inl e \<Rightarrow> Inl e
      | Inr d \<Rightarrow> line_length_loop contour n rest (acc + d))"

definition calculate_line_length :: "ndarray \<Rightarrow> py_error + real" where
  "calculate_line_length contour =
     and_then (py_len contour) (\<lambda>n.
       if n < 2 then Inr 0 else line_length_loop contour n [0..<n] 0)"

definition calculate_area :: "ndarray \<Rightarrow> py_error + real" where
  "calculate_area contour =
     and_then (py_len contour) (\<lambda>n.
       if n < 3 then Inr 0
       else and_then (contourArea contour) (\<lambda>area. Inr \<bar>area\<bar>))"

definition is_contour_closed :: "ndarray \<Rightarrow> real \<Rightarrow> py_error + bool" where
  "is_contour_closed contour threshold =
     and_then (py_len contour) (\<lambda>n.
       if n < 3 then Inr False
       else and_then (row0 contour 0) (\<lambda>first_point.
            and_then (row0 contour (- 1)) (\<lambda>last_point.
            and_then (segment first_point last_point) (\<lambda>distance.
              Inr (distance < threshold)))))"

text \<open>
  \<open>auto_close_contour\<close>: \<open>first_point = contour[0].copy()\<close>, then
  \<open>np.vstack([contour, first_point])\<close>.
\<close>

definition auto_close_contour :: "ndarray \<Rightarrow> py_error + ndarray" where
  "auto_close_contour contour =
     and_then (py_len contour) (\<lambda>n.
       if n = 0 then Inr contour
       else and_then (getitem contour 0) (\<lambda>first_point. vstack contour first_point))"

definition detect_scale_reference :: "'img \<Rightarrow> ndarray list \<Rightarrow> real option" where
  "detect_scale_reference img contours = None"

record measurement =
  line_length_str :: string
  area_str :: string
  unit_str :: string
  notes_str :: string

definition finish_notes :: "string list \<Rightarrow> string" where
  "finish_notes notes_list =
     (if notes_list = [] then ''Processing completed successfully.'' else join_notes notes_list)"

definition no_lines_result :: measurement where
  "no_lines_result =
     \<lparr>line_length_str = ''0'', area_str = ''0'', unit_str = ''pixels'',
      notes_str = ''No drawn lines detected in the image.''\<rparr>"

text \<open>
  The body that \<open>process_image\<close> and \<open>process_image_array\<close> share, from the test
  \<open>if not contours\<close> to the returned dictionary.  \<open>if scale_factor\<close> holds for a
  number other than zero.
\<close>

definition process_contours :: "'img \<Rightarrow> ndarray list \<Rightarrow> py_error + measurement" where
  "process_contours img contours =
     (if contours = [] then Inr no_lines_result
      else
        and_then (py_max contourArea contours) (\<lambda>largest.
        and_then (is_contour_closed largest 5.0) (\<lambda>is_closed.
        and_then (if \<not> is_closed then auto_close_contour largest else Inr largest) (\<lambda>main_contour.
        and_then (calculate_line_length main_contour) (\<lambda>line_length.
        and_then (calculate_area main_contour) (\<lambda>area.
          let scale_factor = detect_scale_reference img contours;
              notes_list =
                (if \<not> is_closed then [''Boundary was open and was auto-closed.''] else []) @
                (if length contours > 1
                 then [''Detected '' @ str_nat (length contours) @
                       '' separate line segments. Using the largest as main boundary.'']
                 else [])
          in (case scale_factor of
                Some s \<Rightarrow>
                  if s \<noteq> 0
                  then Inr \<lparr>line_length_str = format_2f (line_length / s),
                            area_str = format_2f (area / s\<^sup>2),
                            unit_str = ''meters'',
                            notes_str = finish_notes notes_list\<rparr>
                  else Inr \<lparr>line_length_str = format_2f line_length,
                            area_str = format_2f area,
                            unit_str = ''pixels'',
                            notes_str = finish_notes (notes_list @
                              [''No reference scale detected. Measurements in pixels only.''])\<rparr>
              | None \<Rightarrow>
                  Inr \<lparr>line_length_str = format_2f line_length,
                       area_str = format_2f area,
                       unit_str = ''pixels'',
                       notes_str = finish_notes (notes_list @
                         [''No reference scale detected. Measurements in pixels only.''])\<rparr>)))))))"

definition process_image_array ::
  "'img opencv \<Rightarrow> processor \<Rightarrow> 'img \<Rightarrow> (py_error + measurement) \<times> processor" where
  "process_image_array cv self image_array =
     (case preprocess_image cv self image_array of
        ((processed, original_color), self1) \<Rightarrow>
          (case detect_drawn_lines cv self1 processed original_color of
             (detected, self2) \<Rightarrow>
               (and_then detected (\<lambda>(contours, detection_mask).
                  process_contours image_array contours), self2)))"

definition process_image ::
  "'img opencv \<Rightarrow> processor \<Rightarrow> string \<Rightarrow> (py_error + measurement) \<times> processor" where
  "process_image cv self image_path =
     (case cv_imread cv image_path of
        None \<Rightarrow> (Inl (ValueError (''Could not load image from '' @ image_path)), self)
      | Some img \<Rightarrow> process_image_array cv self img)"

section \<open>AreaCalculator (area\_calculator.py)\<close>




definition unit_to_meters :: "(string \<times> real) list" where
  "unit_to_meters =
     [(''meters'', 1.0), (''feet'', 0.3048), (''yards'', 0.9144),
      (''inches'', 0.0254), (''cm'', 0.01), (''mm'', 0.001)]"

text \<open>
  Both failures of \<open>calculate_scale_from_reference\<close> are a \<open>ValueError\<close>; the message
  tells the unknown unit from the invalid reference.
\<close>

definition UnknownUnit :: "string \<Rightarrow> py_error" where
  "UnknownUnit unit = ValueError (''Unknown unit: '' @ unit)"

definition InvalidReference :: py_error where
  "InvalidReference = ValueError ''Reference length cannot be zero''"

definition calculate_scale_from_reference :: "real \<Rightarrow> real \<Rightarrow> string \<Rightarrow> py_error + real" where
  "calculate_scale_from_reference reference_pixel_length reference_real_length unit =
     (case map_of unit_to_meters (lower unit) of
        None \<Rightarrow> Inl (UnknownUnit unit)
      | Some factor \<Rightarrow>
          (let real_length_meters = reference_real_length * factor
           in if real_length_meters = 0 then Inl InvalidReference
              else Inr (reference_pixel_length / real_length_meters)))"

section \<open>ScaleDetector (scale\_detector.py)\<close>

text \<open>The chain of \<open>if\<close> and \<open>elif\<close> of \<open>manual_scale_input\<close> that sets \<open>real_length_m\<close>.\<close>

definition to_meters :: "string \<Rightarrow> real \<Rightarrow> real" where
  "to_meters unit real_length =
     (if unit = ''cm'' then real_length / 100
      else if unit = ''mm'' then real_length / 1000
      else if unit = ''m'' \<or> unit = ''meter'' \<or> unit = ''meters'' then real_length
      else if unit = ''ft'' \<or> unit = ''feet'' then real_length * 0.3048
      else if unit = ''in'' \<or> unit = ''inch'' then real_length * 0.0254
      else real_length)"

definition manual_scale_input :: "real \<Rightarrow> real \<Rightarrow> string \<Rightarrow> py_error + real option" where
  "manual_scale_input pixel_length real_length unit =
     (let real_length_m = to_meters unit real_length
      in if real_length_m > 0 then Inr (Some (pixel_length / real_length_m)) else Inr None)"

section \<open>The words of the specification\<close>

text \<open>
  A polygon is a sequence of points; \<open>contour_of\<close> is its \<open>(N, 1, 2)\<close> array, the layout
  of every contour the pipeline measures, and \<open>flat_contour_of\<close> its \<open>(N, 2)\<close> array.
\<close>

definition point_arr :: "real \<times> real \<Rightarrow> ndarray" where
  "point_arr p = Arr [Num (fst p), Num (snd p)]"

definition contour_of :: "(real \<times> real) list \<Rightarrow> ndarray" where
  "contour_of ps = Arr (map (\<lambda>p. Arr [point_arr p]) ps)"

definition flat_contour_of :: "(real \<times> real) list \<Rightarrow> ndarray" where
  "flat_contour_of ps = Arr (map point_arr ps)"

definition euclid :: "real \<times> real \<Rightarrow> real \<times> real \<Rightarrow> real" where
  "euclid p q = sqrt ((fst q - fst p)\<^sup>2 + (snd q - snd p)\<^sup>2)"


definition polygon_area :: "(real \<times> real) list \<Rightarrow> real" where
  "polygon_area ps = 0.5 * \<bar>shoelace_sum ps\<bar>"

text \<open>The fixed lookup of section 4.5 and the unit names of the two calibration entries.\<close>

definition known_units :: "string set" where
  "known_units = {''meters'', ''feet'', ''yards'', ''inches'', ''cm'', ''mm''}"

definition meters_per_unit :: "string \<Rightarrow> real" where
  "meters_per_unit u =
     (if u = ''meters'' then 1 else if u = ''feet'' then 0.3048
      else if u = ''yards'' then 0.9144 else if u = ''inches'' then 0.0254
      else if u = ''cm'' then 0.01 else 0.001)"

definition detector_units :: "string set" where
  "detector_units = {''cm'', ''mm'', ''m'', ''meter'', ''meters'', ''ft'', ''feet'', ''in'', ''inch''}"

text \<open>
  The sum of a function of two points over the open path: each point with its successor,
  the last point with none.  The cyclic sums above are this sum and the closing term.
\<close>

definition path_sum :: "('a \<Rightarrow> 'a \<Rightarrow> real) \<Rightarrow> 'a list \<Rightarrow> real" where
  "path_sum g ps = (\<Sum>(p, q)\<leftarrow>zip ps (tl ps). g p q)"

text \<open>Inputs of the examples: an OpenCV that finds no contour, a triangle, two squares.\<close>

definition blank_opencv :: "unit opencv" where
  "blank_opencv =
     \<lparr>cv_imread = (\<lambda>p. Some ()), cv_preprocess = (\<lambda>i. (i, i)),
      cv_find_contours = (\<lambda>p orig. ([], p))\<rparr>"


definition sqA :: "(real \<times> real) list" where
  "sqA = [(0, 0), (3, 0), (3, 3), (0, 3)]"


section \<open>Facts about the array model\<close>

lemma and_then_Inr [simp]: "and_then (Inr x) f = f x"
  by (simp add: and_then_def)

lemma and_then_Inl [simp]: "and_then (Inl e) f = Inl e"
  by (simp add: and_then_def)

lemma list_item_nat [simp]: "i < length xs \<Longrightarrow> list_item xs (int i) = Inr (xs ! i)"
  by (simp add: list_item_def)

lemma list_item_0 [simp]: "list_item (x # xs) 0 = Inr x"
  by (simp add: list_item_def)

lemma list_item_1 [simp]: "list_item (x # y # xs) 1 = Inr y"
  by (simp add: list_item_def)

lemma row0_contour_of [simp]:
  "i < length ps \<Longrightarrow> row0 (contour_of ps) (int i) = Inr (point_arr (ps ! i))"
  by (simp add: row0_def contour_of_def)

lemma segment_point_arr [simp]: "segment (point_arr p) (point_arr q) = Inr (euclid p q)"
  by (simp add: segment_def coord_def point_arr_def euclid_def)

lemma py_len_contour_of [simp]: "py_len (contour_of ps) = Inr (length ps)"
  by (simp add: contour_of_def)

lemma those_map_Some [simp]: "those (map (\<lambda>x. Some (f x)) xs) = Some (map f xs)"
  by (induction xs) simp_all

lemma contour_points_contour_of [simp]: "contour_points (contour_of ps) = Inr ps"
  by (simp add: contour_points_def contour_of_def point_arr_def comp_def)

lemma contourArea_contour_of [simp]: "contourArea (contour_of ps) = Inr (polygon_area ps)"
  by (simp add: contourArea_def polygon_area_def)

lemma str_nat_digit: "n < 10 \<Longrightarrow> str_nat n = [digit_char n]"
  by (simp add: str_nat.simps)

section \<open>Perimeter\<close>






section \<open>Area\<close>

lemma zip_snoc_last: "zip (x # xs) (xs @ [y]) = zip (x # xs) xs @ [(last (x # xs), y)]"
  by (induction xs arbitrary: x) simp_all

lemma cyclic_sum_split:
  "ps \<noteq> [] \<Longrightarrow>
   (\<Sum>(p, q)\<leftarrow>zip ps (rotate1 ps). g p q) = path_sum g ps + g (last ps) (hd ps)"
  by (cases ps) (simp_all add: path_sum_def zip_snoc_last del: last.simps)

lemma path_sum_Cons:
  "path_sum g (x # xs) = (if xs = [] then 0 else g x (hd xs)) + path_sum g xs"
  by (cases xs) (simp_all add: path_sum_def)

lemma path_sum_snoc:
  "path_sum g (xs @ [a]) = path_sum g xs + (if xs = [] then 0 else g (last xs) a)"
proof (induction xs)
  case Nil
  then show ?case by (simp add: path_sum_def)
next
  case (Cons x xs)
  then show ?case by (cases xs) (simp_all add: path_sum_Cons)
qed

lemma path_sum_rev:
  assumes "\<And>p q. g q p = - g p q"
  shows "path_sum g (rev ps) = - path_sum g ps"
proof (induction ps)
  case Nil
  then show ?case by (simp add: path_sum_def)
next
  case (Cons x xs)
  then show ?case
    using assms [of x "hd xs"] by (simp add: path_sum_snoc path_sum_Cons last_rev)
qed

lemma cross_swap: "cross q p = - cross p q"
  by (simp add: cross_def)

lemma shoelace_sum_rev: "shoelace_sum (rev ps) = - shoelace_sum ps"
proof (cases "ps = []")
  case True
  then show ?thesis by (simp add: shoelace_sum_def)
next
  case False
  then show ?thesis
    using cross_swap [of "last ps" "hd ps"]
    by (simp add: shoelace_sum_def cyclic_sum_split path_sum_rev [OF cross_swap] last_rev hd_rev)
qed

lemma short_list_cases:
  assumes "length ps < 3"
  obtains "ps = []" | x where "ps = [x]" | x y where "ps = [x, y]"
proof (cases ps)
  case Nil
  then show ?thesis using that by simp
next
  case (Cons x xs)
  note outer = Cons
  show ?thesis
  proof (cases xs)
    case Nil
    then show ?thesis using that outer by simp
  next
    case (Cons y ys)
    then have "ys = []" using assms outer by simp
    then show ?thesis using that outer Cons by simp
  qed
qed

lemma shoelace_sum_small: "length ps < 3 \<Longrightarrow> shoelace_sum ps = 0"
  by (erule short_list_cases) (simp_all add: shoelace_sum_def cross_def)

text \<open>
  Claim C4.  For every polygon \<open>calculate_area\<close> returns half the absolute value of the
  shoelace sum over the cyclic point sequence; that value is 0 for fewer than three
  points; and the points in reverse order give the same area.
\<close>

theorem calculate_area_shoelace:
  "calculate_area (contour_of ps) = Inr (0.5 * \<bar>shoelace_sum ps\<bar>)
   \<and> calculate_area (contour_of ps) =
       Inr (if length ps < 3 then 0 else 0.5 * \<bar>shoelace_sum ps\<bar>)
   \<and> calculate_area (contour_of (rev ps)) = calculate_area (contour_of ps)"
  by (simp add: calculate_area_def contourArea_def shoelace_sum_small shoelace_sum_rev)

text \<open>The square of side 3 has area 9 in either orientation; two points enclose nothing.\<close>

theorem calculate_area_shoelace_witness:
  "calculate_area (contour_of sqA) = Inr 9
   \<and> calculate_area (contour_of (rev sqA)) = Inr 9
   \<and> calculate_area (contour_of [(0, 0), (5, 5)]) = Inr 0"
proof -
  have "shoelace_sum sqA = 18" "shoelace_sum [(0, 0), (5, 5)] = 0"
    by (simp_all add: shoelace_sum_def cross_def sqA_def)
  then show ?thesis
    using calculate_area_shoelace [of sqA] calculate_area_shoelace [of "[(0, 0), (5, 5)]"]
    by simp
qed

section \<open>Closing a contour\<close>

lemma ndim_contour_of: "ps \<noteq> [] \<Longrightarrow> ndim (contour_of ps) = 3"
  by (cases ps) (simp_all add: ndim_def contour_of_def point_arr_def)

lemma ndim_first_row: "ndim (Arr [point_arr p]) = 2"
  by (simp add: ndim_def point_arr_def)

lemma vstack_axes_mismatch:
  assumes "ps \<noteq> []"
  shows "vstack (contour_of ps) (Arr [point_arr p]) =
     Inl (ValueError
       ''all the input arrays must have same number of dimensions, but the array at index 0 has 3 dimension(s) and the array at index 1 has 2 dimension(s)'')"
proof -
  have a: "atleast_2d (contour_of ps) = contour_of ps"
    using ndim_contour_of [OF assms] by (simp add: atleast_2d_def)
  have b: "atleast_2d (Arr [point_arr p]) = Arr [point_arr p]"
    using ndim_first_row [of p] by (simp add: atleast_2d_def)
  have c: "str_nat 3 = ''3''" "str_nat 2 = ''2''"
    by (simp_all add: str_nat_digit digit_char_def)
  have d: "concatenate0 (contour_of ps) (Arr [point_arr p]) =
     Inl (ValueError
       (''all the input arrays must have same number of dimensions, but the array at index 0 has '' @
        str_nat 3 @ '' dimension(s) and the array at index 1 has '' @ str_nat 2 @ '' dimension(s)''))"
    unfolding concatenate0_def ndim_contour_of [OF assms] ndim_first_row
    by (simp add: contour_of_def)
  show ?thesis unfolding vstack_def a b d c by simp
qed

text \<open>
  On the three-axis array of any non-empty polygon \<open>auto_close_contour\<close> raises:
  \<open>contour[0]\<close> has two axes, the contour three, and \<open>np.vstack\<close> refuses the pair.
\<close>

lemma auto_close_contour_three_axes:
  assumes "ps \<noteq> []"
  shows "auto_close_contour (contour_of ps) =
     Inl (ValueError
       ''all the input arrays must have same number of dimensions, but the array at index 0 has 3 dimension(s) and the array at index 1 has 2 dimension(s)'')"
proof -
  obtain p rest where ps: "ps = p # rest" using assms by (cases ps) auto
  have "getitem (contour_of ps) 0 = Inr (Arr [point_arr p])"
    by (simp add: ps contour_of_def)
  then show ?thesis
    using vstack_axes_mismatch [OF assms, of p] assms
    by (simp add: auto_close_contour_def)
qed

text \<open>
  On the two-axis layout \<open>(N, 2)\<close>, the one in which \<open>measure_coordinates\<close> of
  \<open>api.py\<close> closes its points before reshaping them, the same function appends the first
  point.
\<close>

lemma auto_close_contour_two_axes:
  assumes "ps \<noteq> []"
  shows "auto_close_contour (flat_contour_of ps) = Inr (flat_contour_of (ps @ [hd ps]))"
proof -
  obtain p rest where ps: "ps = p # rest" using assms by (cases ps) auto
  show ?thesis
    by (simp add: ps auto_close_contour_def flat_contour_of_def point_arr_def vstack_def
        atleast_2d_def ndim_def concatenate0_def)
qed

text \<open>
  Claim C6, at the contour of the three points (0, 0), (3, 0), (3, 4): the claim has
  \<open>auto_close_contour\<close> return these points followed by (0, 0); the code raises
  \<open>ValueError\<close>.
\<close>

theorem auto_close_contour_raises:
  "auto_close_contour (contour_of [(0, 0), (3, 0), (3, 4)]) =
     Inl (ValueError
       ''all the input arrays must have same number of dimensions, but the array at index 0 has 3 dimension(s) and the array at index 1 has 2 dimension(s)'')
   \<and> auto_close_contour (contour_of [(0, 0), (3, 0), (3, 4)]) \<noteq>
     Inr (contour_of [(0, 0), (3, 0), (3, 4), (0, 0)])"
proof -
  have "[(0, 0), (3, 0), (3, 4)] \<noteq> ([] :: (real \<times> real) list)" by simp
  from auto_close_contour_three_axes [OF this] show ?thesis by simp
qed

section \<open>Choosing the main boundary\<close>






section \<open>The pipeline\<close>

lemma process_image_array_unfold:
  "process_image_array cv self img =
     (and_then (fst (detect_drawn_lines cv self (fst (cv_preprocess cv img))
                  (snd (cv_preprocess cv img))))
        (\<lambda>(contours, detection_mask). process_contours img contours), self)"
  by (simp add: process_image_array_def preprocess_image_def detect_drawn_lines_def
      split: prod.splits)

lemma detect_drawn_lines_unfold:
  "detect_drawn_lines cv self processed original =
     (and_then (filter_contours (fst (cv_find_contours cv processed original)))
        (\<lambda>filtered_contours.
           Inr (filtered_contours, snd (cv_find_contours cv processed original))), self)"
  by (simp add: detect_drawn_lines_def split: prod.splits)

text \<open>
  Claim C1 as stated fails: on an image without contours the length and the area are the
  string \<open>0\<close>, not \<open>0.00\<close>, and the note ends in \<open>in the image.\<close>
\<close>

theorem no_lines_result_unformatted:
  "fst (process_image_array blank_opencv ImageMeasurementProcessor_init ()) =
     Inr \<lparr>line_length_str = ''0'', area_str = ''0'', unit_str = ''pixels'',
          notes_str = ''No drawn lines detected in the image.''\<rparr>
   \<and> fst (process_image_array blank_opencv ImageMeasurementProcessor_init ()) \<noteq>
     Inr \<lparr>line_length_str = ''0.00'', area_str = ''0.00'', unit_str = ''pixels'',
          notes_str = ''No drawn lines detected.''\<rparr>"
  by (simp add: process_image_array_unfold detect_drawn_lines_def blank_opencv_def
      process_contours_def no_lines_result_def)

text \<open>
  Claim C1, amended.  For every image on which the detector finds no candidate polygon,
  \<open>process_image_array\<close>, and \<open>process_image\<close> on a path that loads that image, return
  the zero result with length \<open>0\<close> and area \<open>0\<close> written without decimals, the unit
  \<open>pixels\<close> and the note \<open>No drawn lines detected in the image.\<close>
\<close>

theorem no_contours_zero_result:
  assumes "fst (detect_drawn_lines cv self (fst (cv_preprocess cv img))
             (snd (cv_preprocess cv img))) = Inr ([], combined)"
  shows "fst (process_image_array cv self img) = Inr no_lines_result
         \<and> (cv_imread cv path = Some img \<longrightarrow>
              fst (process_image cv self path) = Inr no_lines_result)
         \<and> no_lines_result =
             \<lparr>line_length_str = ''0'', area_str = ''0'', unit_str = ''pixels'',
              notes_str = ''No drawn lines detected in the image.''\<rparr>"
proof -
  have "fst (process_image_array cv self img) = Inr no_lines_result"
    using assms by (simp add: process_image_array_unfold process_contours_def)
  then show ?thesis
    by (simp add: process_image_def no_lines_result_def)
qed

theorem no_contours_zero_result_witness:
  "fst (process_image_array blank_opencv \<lparr>debug_mode = True\<rparr> ()) =
     Inr \<lparr>line_length_str = ''0'', area_str = ''0'', unit_str = ''pixels'',
          notes_str = ''No drawn lines detected in the image.''\<rparr>
   \<and> fst (process_image blank_opencv \<lparr>debug_mode = True\<rparr> ''plot.png'') =
     Inr \<lparr>line_length_str = ''0'', area_str = ''0'', unit_str = ''pixels'',
          notes_str = ''No drawn lines detected in the image.''\<rparr>"
proof -
  have h: "fst (detect_drawn_lines blank_opencv \<lparr>debug_mode = True\<rparr>
      (fst (cv_preprocess blank_opencv ())) (snd (cv_preprocess blank_opencv ()))) = Inr ([], ())"
    by (simp add: detect_drawn_lines_def blank_opencv_def)
  have i: "cv_imread blank_opencv ''plot.png'' = Some ()"
    by (simp add: blank_opencv_def)
  show ?thesis
    using no_contours_zero_result [OF h, of "''plot.png''"] i
    by (simp add: no_lines_result_def)
qed

text \<open>
  Claim C9 as stated fails: the debug flag is a field of the instance.  Two instances
  that differ in it alone, given the same call, come back still differing in it.
\<close>

theorem debug_flag_is_instance_state:
  "debug_mode (snd (process_image_array blank_opencv
       (ImageMeasurementProcessor_init\<lparr>debug_mode := True\<rparr>) ())) = True
   \<and> debug_mode (snd (process_image_array blank_opencv ImageMeasurementProcessor_init ())) = False"
  by (simp add: process_image_array_unfold ImageMeasurementProcessor_init_def)

text \<open>
  Claim C9, amended.  No processing method changes a field of the instance: after
  \<open>preprocess_image\<close>, \<open>detect_drawn_lines\<close> and \<open>process_image_array\<close> the instance
  is the one before the call.  The debug flag is the field \<open>debug_mode\<close> of the
  instance, which the constructor sets to \<open>False\<close>; no processing method reads it, so a
  result does not depend on it.
\<close>

theorem processing_keeps_instance:
  "snd (preprocess_image cv self img) = self
   \<and> snd (detect_drawn_lines cv self processed original) = self
   \<and> snd (process_image_array cv self img) = self
   \<and> fst (preprocess_image cv (self\<lparr>debug_mode := d\<rparr>) img) = fst (preprocess_image cv self img)
   \<and> fst (detect_drawn_lines cv (self\<lparr>debug_mode := d\<rparr>) processed original) =
       fst (detect_drawn_lines cv self processed original)
   \<and> fst (process_image_array cv (self\<lparr>debug_mode := d\<rparr>) img) =
       fst (process_image_array cv self img)
   \<and> debug_mode ImageMeasurementProcessor_init = False"
  by (simp add: process_image_array_unfold detect_drawn_lines_unfold preprocess_image_def
      ImageMeasurementProcessor_init_def)

section \<open>Calibration\<close>

lemma map_of_unit_to_meters:
  "map_of unit_to_meters u = (if u \<in> known_units then Some (meters_per_unit u) else None)"
  by (simp add: unit_to_meters_def known_units_def meters_per_unit_def)

lemma meters_per_unit_pos: "0 < meters_per_unit u"
  by (simp add: meters_per_unit_def)

lemma lower_examples:
  "lower ''meters'' = ''meters''" "lower ''FEET'' = ''feet''" "lower ''Yards'' = ''yards''"
  "lower ''parsecs'' = ''parsecs''"
  by (simp_all add: lower_def lower_char_def)

text \<open>
  Claim C5.  For a unit whose lowercase form is one of meters, feet, yards, inches, cm
  and mm, and a positive pixel length and real length, \<open>calculate_scale_from_reference\<close>
  returns the pixel length divided by the real length in meters under the fixed lookup;
  100 pixels for 10 meters give 10; and every unit whose lowercase form is outside the
  set fails with the unknown-unit error.
\<close>

theorem calculate_scale_known_units:
  "(lower unit \<in> known_units \<and> 0 < p \<and> 0 < r \<longrightarrow>
      calculate_scale_from_reference p r unit = Inr (p / (r * meters_per_unit (lower unit))))
   \<and> (lower unit \<notin> known_units \<longrightarrow>
      calculate_scale_from_reference p r unit = Inl (UnknownUnit unit))
   \<and> calculate_scale_from_reference 100 10 ''meters'' = Inr 10"
proof (intro conjI impI)
  assume "lower unit \<in> known_units \<and> 0 < p \<and> 0 < r"
  then show "calculate_scale_from_reference p r unit =
      Inr (p / (r * meters_per_unit (lower unit)))"
    using meters_per_unit_pos [of "lower unit"]
    by (simp add: calculate_scale_from_reference_def map_of_unit_to_meters)
next
  assume "lower unit \<notin> known_units"
  then show "calculate_scale_from_reference p r unit = Inl (UnknownUnit unit)"
    by (simp add: calculate_scale_from_reference_def map_of_unit_to_meters)
next
  show "calculate_scale_from_reference 100 10 ''meters'' = Inr 10"
    by (simp add: calculate_scale_from_reference_def map_of_unit_to_meters known_units_def
        meters_per_unit_def lower_examples)
qed

theorem calculate_scale_known_units_witness:
  "calculate_scale_from_reference 50 2 ''FEET'' = Inr (50 / (2 * 0.3048))
   \<and> calculate_scale_from_reference 100 5 ''parsecs'' = Inl (UnknownUnit ''parsecs'')"
  using calculate_scale_known_units [of "''FEET''" 50 2]
    calculate_scale_known_units [of "''parsecs''" 100 5]
  by (simp add: lower_examples known_units_def meters_per_unit_def)

text \<open>
  Claim C2 as stated fails: a negative real length and a negative pixel length are both
  accepted, and the scale factor returned is negative.
\<close>

theorem calculate_scale_negative_reference:
  "calculate_scale_from_reference 100 (- 10) ''meters'' = Inr (- 10)
   \<and> calculate_scale_from_reference 100 (- 10) ''meters'' \<noteq> Inl InvalidReference
   \<and> (- 10 :: real) * meters_per_unit ''meters'' \<le> 0
   \<and> calculate_scale_from_reference (- 5) 10 ''meters'' = Inr (- 1 / 2)"
  by (simp add: calculate_scale_from_reference_def map_of_unit_to_meters known_units_def
      meters_per_unit_def lower_examples)

text \<open>
  Claim C2, amended.  For every pixel length, real length and known unit,
  \<open>calculate_scale_from_reference\<close> fails with the invalid-reference error if and only
  if the real length converted to meters is 0, which is when the real length is 0; the
  pixel length is not examined.  A scale factor it returns is strictly positive exactly
  when the pixel length and the real length are both positive or both negative.
\<close>

theorem calculate_scale_zero_reference:
  assumes "lower unit \<in> known_units"
  shows "(calculate_scale_from_reference p r unit = Inl InvalidReference
            \<longleftrightarrow> r * meters_per_unit (lower unit) = 0)
         \<and> (r * meters_per_unit (lower unit) = 0 \<longleftrightarrow> r = 0)
         \<and> (\<forall>s. calculate_scale_from_reference p r unit = Inr s \<longrightarrow>
              (0 < s \<longleftrightarrow> (0 < p \<and> 0 < r) \<or> (p < 0 \<and> r < 0)))"
proof -
  have pos: "0 < meters_per_unit (lower unit)" by (rule meters_per_unit_pos)
  have a: "(r * meters_per_unit (lower unit) = 0) = (r = 0)" using pos by simp
  have b: "calculate_scale_from_reference p r unit =
      (if r = 0 then Inl InvalidReference else Inr (p / (r * meters_per_unit (lower unit))))"
    using assms pos by (simp add: calculate_scale_from_reference_def map_of_unit_to_meters)
  have c: "r \<noteq> 0 \<Longrightarrow>
      (0 < p / (r * meters_per_unit (lower unit))) = ((0 < p \<and> 0 < r) \<or> (p < 0 \<and> r < 0))"
    using pos by (auto simp: zero_less_divide_iff zero_less_mult_iff mult_less_0_iff)
  show ?thesis using a b c by auto
qed

theorem calculate_scale_zero_reference_witness:
  "calculate_scale_from_reference 100 0 ''Yards'' = Inl InvalidReference
   \<and> calculate_scale_from_reference 100 10 ''Yards'' \<noteq> Inl InvalidReference"
proof -
  have k: "lower ''Yards'' \<in> known_units" by (simp add: lower_examples known_units_def)
  show ?thesis
    using calculate_scale_zero_reference [OF k, of 100 0]
      calculate_scale_zero_reference [OF k, of 100 10]
    by (simp add: lower_examples meters_per_unit_def)
qed

text \<open>
  Claim C10.  \<open>manual_scale_input\<close> of the scale detector raises nothing.  For a unit
  that is none of cm, mm, m, meter, meters, ft, feet, in and inch, compared as written,
  it takes the real length for meters; and for a converted real length that is not
  positive, which is when the real length is not positive, it returns \<open>None\<close>.
\<close>

theorem manual_scale_input_diverges:
  "(unit \<notin> detector_units \<longrightarrow>
      manual_scale_input p r unit = Inr (if 0 < r then Some (p / r) else None))
   \<and> (to_meters unit r \<le> 0 \<longrightarrow> manual_scale_input p r unit = Inr None)
   \<and> (to_meters unit r \<le> 0 \<longleftrightarrow> r \<le> 0)
   \<and> (\<forall>e. manual_scale_input p r unit \<noteq> Inl e)"
  by (auto simp: manual_scale_input_def to_meters_def detector_units_def Let_def
      zero_less_mult_iff mult_le_0_iff)

theorem manual_scale_input_diverges_witness:
  "manual_scale_input 100 5 ''parsecs'' = Inr (Some 20)
   \<and> manual_scale_input 100 5 ''CM'' = Inr (Some 20)
   \<and> manual_scale_input 100 (- 5) ''cm'' = Inr None
   \<and> manual_scale_input 100 0 ''feet'' = Inr None"
  using manual_scale_input_diverges [of "''parsecs''" 100 5]
    manual_scale_input_diverges [of "''CM''" 100 5]
    manual_scale_input_diverges [of "''cm''" 100 "- 5"]
    manual_scale_input_diverges [of "''feet''" 100 0]
  by (simp add: detector_units_def to_meters_def)

section \<open>Unit conversion\<close>




end
